theory Spec2Isabelle
  imports Main "HOL-Library.Word" "HOL-Library.Log_Nat"
begin

section \<open>A shallow embedding of the ledger in \<^verbatim>\<open>src/index.ts\<close>\<close>

text \<open>
  The program is a single TypeScript file with four classes: \<^verbatim>\<open>Transaction\<close>,
  \<^verbatim>\<open>Block\<close>, \<^verbatim>\<open>Chain\<close> and \<^verbatim>\<open>Wallet\<close>. Everything it does with
  Node's \<^verbatim>\<open>crypto\<close> module (SHA256 and MD5 digests, RSA signing and verification) is
  a call into a library that is not part of the program, so the model takes these four
  operations as a parameter, the record \<open>Crypto\<close>. The values the runtime supplies when a
  block is built (\<^verbatim>\<open>Date.now()\<close> and the rounded \<^verbatim>\<open>Math.random()\<close> draw) are explicit
  arguments of the operation that builds the block.

  Numbers: the fields \<^verbatim>\<open>amount\<close>, \<^verbatim>\<open>ts\<close>, \<^verbatim>\<open>nonce\<close> and the counters of
  \<^verbatim>\<open>mine\<close> are JavaScript numbers, that is binary64 floating-point values. The model
  has the integer-valued ones: an \<open>int\<close> stands for the finite binary64 number of that
  value. Addition rounds the exact sum to the nearest binary64 number (\<open>js_add\<close>), and
  \<^verbatim>\<open>toString\<close> writes the shortest decimal digits that read back as the same number,
  in exponent form from \<open>10 ^ 21\<close> on (\<open>Number_toString\<close>). Numbers with a fractional part,
  \<^verbatim>\<open>NaN\<close> and the infinities are not values of the model.

  Strings are \<open>char list\<close>; a \<^verbatim>\<open>Buffer\<close> is a list of bytes.
\<close>

subsection \<open>Errors and the external cryptography\<close>

datatype error =
    TypeError      \<comment> \<open>reading a property of \<^verbatim>\<open>undefined\<close>\<close>
  | CryptoError    \<comment> \<open>thrown by the \<^verbatim>\<open>crypto\<close> module, e.g. on a malformed key\<close>

type_synonym Buffer = "8 word list"

record Crypto =
  SHA256_hex :: "string \<Rightarrow> string"
    \<comment> \<open>\<^verbatim>\<open>createHash("SHA256").update(s).digest("hex")\<close>\<close>
  MD5_hex :: "string \<Rightarrow> string"
    \<comment> \<open>\<^verbatim>\<open>createHash("MD5").update(s).digest("hex")\<close>\<close>
  SHA256_sign :: "string \<Rightarrow> string \<Rightarrow> error + Buffer"
    \<comment> \<open>\<^verbatim>\<open>createSign("SHA256").update(s).sign(privateKey)\<close>: payload, then key\<close>
  SHA256_verify :: "string \<Rightarrow> string \<Rightarrow> Buffer \<Rightarrow> error + bool"
    \<comment> \<open>\<^verbatim>\<open>createVerify("SHA256").update(s).verify(publicKey, signature)\<close>\<close>

subsection \<open>Number and string primitives of the language\<close>

definition digit_char :: "nat \<Rightarrow> char" where
  "digit_char d = (''0123456789abcdef'' ! d)"

text \<open>The decimal digits of a non-negative integer.\<close>

function int_digits :: "int \<Rightarrow> string" where
  "int_digits n =
     (if n < 10 then [digit_char (nat n)] else int_digits (n div 10) @ [digit_char (nat (n mod 10))])"
  by pat_completeness auto
termination
  by (relation "measure nat") auto

declare int_digits.simps [simp del]

text \<open>
  The binary64 number nearest to an integer, ties going to the even significand: the
  significand keeps 53 bits. Below \<open>2 ^ 53\<close> in magnitude every integer is a binary64
  number; above, the numbers are \<open>2 ^ e\<close> apart. (An integer of magnitude \<open>2 ^ 1024\<close> or
  more would round to an infinity; no sum formed by \<^verbatim>\<open>mine\<close> is that large, since it
  adds at most \<open>2 ^ 53\<close> to a finite number.)
\<close>

definition binary64_round :: "int \<Rightarrow> int" where
  "binary64_round n =
     (let a = \<bar>n\<bar>; e = nat (bitlen a - 53) in
      if e = 0 then n
      else
        let q = a div 2 ^ e; r = a mod 2 ^ e; half = 2 ^ (e - 1);
            q' = (if half < r \<or> (r = half \<and> odd q) then q + 1 else q)
        in sgn n * (q' * 2 ^ e))"

text \<open>The operator \<^verbatim>\<open>+\<close> on two integer-valued numbers.\<close>

definition js_add :: "int \<Rightarrow> int \<Rightarrow> int" where
  "js_add a b = binary64_round (a + b)"

text \<open>
  \<^verbatim>\<open>Number.prototype.toString\<close> on an integer-valued number. The digits are those of
  the decimal with the fewest significant digits that rounds to the number, the nearest
  one if there are two, the one with the even last digit if both are equally near.
  \<open>shortest_decimal m p\<close> tries the decimals with \<open>p\<close> trailing zeros on either side of
  \<open>m\<close> and then those with fewer; it starts with one significant digit. Up to 21 digits
  are written in full; more are written as \<^verbatim>\<open>d.ddde+x\<close>.
\<close>

fun shortest_decimal :: "int \<Rightarrow> nat \<Rightarrow> int" where
  "shortest_decimal m 0 = m"
| "shortest_decimal m (Suc p) =
     (let s = m div 10 ^ Suc p; lo = s * 10 ^ Suc p; hi = lo + 10 ^ Suc p;
          ok_lo = (binary64_round lo = m);
          ok_hi = (binary64_round hi = m)
      in if ok_lo \<and> ok_hi then
           (if m - lo < hi - m then lo else if hi - m < m - lo then hi
            else if even s then lo else hi)
         else if ok_lo then lo
         else if ok_hi then hi
         else shortest_decimal m p)"

definition strip_zeros :: "string \<Rightarrow> string" where
  "strip_zeros ds = rev (dropWhile (\<lambda>c. c = CHR ''0'') (rev ds))"

definition Number_toString_abs :: "int \<Rightarrow> string" where
  "Number_toString_abs m =
     (let ds = int_digits (shortest_decimal m (length (int_digits m) - 1)); n = length ds in
      if n \<le> 21 then ds
      else
        let sig = strip_zeros ds in
        (if length sig = 1 then sig else hd sig # CHR ''.'' # tl sig) @ ''e+'' @
        int_digits (int n - 1))"

definition Number_toString :: "int \<Rightarrow> string" where
  "Number_toString n =
     (if n < 0 then CHR ''-'' # Number_toString_abs (- n) else Number_toString_abs n)"

text \<open>\<^verbatim>\<open>String.prototype.substr(start, length)\<close> for a non-negative start.\<close>

definition substr :: "string \<Rightarrow> nat \<Rightarrow> nat \<Rightarrow> string" where
  "substr s start len = take len (drop start s)"

text \<open>
  \<^verbatim>\<open>JSON.stringify\<close> on a string: the quoted string with \<^verbatim>\<open>"\<close>, \<^verbatim>\<open>\\<close> and
  the control characters escaped.
\<close>

definition QuoteJSONChar :: "char \<Rightarrow> string" where
  "QuoteJSONChar c =
     (if c = CHR 0x22 then [CHR 0x5C, CHR 0x22]
      else if c = CHR 0x5C then [CHR 0x5C, CHR 0x5C]
      else if c = CHR 0x08 then [CHR 0x5C, CHR ''b'']
      else if c = CHR 0x0C then [CHR 0x5C, CHR ''f'']
      else if c = CHR 0x0A then [CHR 0x5C, CHR ''n'']
      else if c = CHR 0x0D then [CHR 0x5C, CHR ''r'']
      else if c = CHR 0x09 then [CHR 0x5C, CHR ''t'']
      else if (of_char c :: nat) < 32
        then [CHR 0x5C, CHR ''u'', CHR ''0'', CHR ''0'',
              digit_char ((of_char c :: nat) div 16), digit_char ((of_char c :: nat) mod 16)]
      else [c])"

definition QuoteJSONString :: "string \<Rightarrow> string" where
  "QuoteJSONString s = [CHR 0x22] @ concat (map QuoteJSONChar s) @ [CHR 0x22]"

subsection \<open>Transaction\<close>

record Transaction =
  amount :: int
  payer :: string
  payee :: string

definition Transaction_new :: "int \<Rightarrow> string \<Rightarrow> string \<Rightarrow> Transaction" where
  "Transaction_new a p q = \<lparr>amount = a, payer = p, payee = q\<rparr>"

text \<open>\<^verbatim>\<open>JSON.stringify(this)\<close> on a transaction: its three own properties in order.\<close>

definition Transaction_stringify :: "Transaction \<Rightarrow> string" where
  "Transaction_stringify t =
     ''{'' @ QuoteJSONString ''amount'' @ '':'' @ Number_toString (amount t) @ '','' @
     QuoteJSONString ''payer'' @ '':'' @ QuoteJSONString (payer t) @ '','' @
     QuoteJSONString ''payee'' @ '':'' @ QuoteJSONString (payee t) @ ''}''"

definition Transaction_toString :: "Transaction \<Rightarrow> string" where
  "Transaction_toString t = Transaction_stringify t"

subsection \<open>Block\<close>

text \<open>
  The own properties of a block, in the order in which the constructor creates them
  (the parameter properties, then the initialised field \<^verbatim>\<open>nonce\<close>); this is the order
  in which \<^verbatim>\<open>JSON.stringify\<close> writes them.
\<close>

record Block =
  prevHash :: string
  transaction :: Transaction
  ts :: int
  nonce :: int

text \<open>
  \<^verbatim>\<open>new Block(prevHash, transaction)\<close>, where \<open>now\<close> is what \<^verbatim>\<open>Date.now()\<close> returns
  and \<open>rnd\<close> is the value of \<^verbatim>\<open>Math.round(Math.random() * 999999999)\<close> at the call.
\<close>

definition Block_new :: "string \<Rightarrow> Transaction \<Rightarrow> int \<Rightarrow> int \<Rightarrow> Block" where
  "Block_new ph t now rnd = \<lparr>prevHash = ph, transaction = t, ts = now, nonce = rnd\<rparr>"

definition Block_stringify :: "Block \<Rightarrow> string" where
  "Block_stringify b =
     ''{'' @ QuoteJSONString ''prevHash'' @ '':'' @ QuoteJSONString (prevHash b) @ '','' @
     QuoteJSONString ''transaction'' @ '':'' @ Transaction_stringify (transaction b) @ '','' @
     QuoteJSONString ''ts'' @ '':'' @ Number_toString (ts b) @ '','' @
     QuoteJSONString ''nonce'' @ '':'' @ Number_toString (nonce b) @ ''}''"

text \<open>The getter \<^verbatim>\<open>hash\<close>.\<close>

definition hash :: "Crypto \<Rightarrow> Block \<Rightarrow> string" where
  "hash cr b = (let str = Block_stringify b in SHA256_hex cr str)"

subsection \<open>Chain\<close>

record Chain =
  chain_blocks :: "Block list"   \<comment> \<open>the field \<^verbatim>\<open>chain\<close>\<close>

text \<open>
  The state of the process: the singleton \<^verbatim>\<open>Chain.instance\<close> and the lines written
  with \<^verbatim>\<open>console.log\<close>.
\<close>

record World =
  Chain_instance :: Chain
  console :: "string list"

definition Chain_new :: "int \<Rightarrow> int \<Rightarrow> Chain" where
  "Chain_new now rnd =
     \<lparr>chain_blocks = [Block_new '''' (Transaction_new 500 ''initial'' ''Daniel'') now rnd]\<rparr>"

definition World_new :: "int \<Rightarrow> int \<Rightarrow> World" where
  "World_new now rnd = \<lparr>Chain_instance = Chain_new now rnd, console = []\<rparr>"

text \<open>Reading an array element: \<^verbatim>\<open>undefined\<close> (here \<open>None\<close>) outside the array.\<close>

definition array_get :: "'a list \<Rightarrow> int \<Rightarrow> 'a option" where
  "array_get xs i = (if 0 \<le> i \<and> i < int (length xs) then Some (xs ! nat i) else None)"

definition lastBlock :: "Chain \<Rightarrow> Block option" where
  "lastBlock c = array_get (chain_blocks c) (int (length (chain_blocks c)) - 1)"

definition console_log :: "string \<Rightarrow> World \<Rightarrow> World" where
  "console_log s w = w\<lparr>console := console w @ [s]\<rparr>"

text \<open>
  The search loop of \<^verbatim>\<open>mine\<close>. It has no bound, so it is a partial function:
  \<open>None\<close> is the loop that never returns. Both additions of the source,
  \<^verbatim>\<open>nonce + solution\<close> and \<^verbatim>\<open>solution += 1\<close>, are additions of numbers. The
  parameter \<^verbatim>\<open>nonce\<close> of the source is \<open>nonce_arg\<close> here, the name \<open>nonce\<close> being the
  field of a block.
\<close>

partial_function (option) mine_loop :: "Crypto \<Rightarrow> int \<Rightarrow> int \<Rightarrow> int option" where
  "mine_loop cr nonce_arg solution =
     (let attempt = MD5_hex cr (Number_toString (js_add nonce_arg solution)) in
      if substr attempt 0 4 = ''0000'' then Some solution
      else mine_loop cr nonce_arg (js_add solution 1))"

definition mine :: "Crypto \<Rightarrow> int \<Rightarrow> World \<Rightarrow> (int \<times> World) option" where
  "mine cr nonce_arg w =
     (let w1 = console_log ''mining...'' w in
      case mine_loop cr nonce_arg 1 of
        None \<Rightarrow> None
      | Some solution \<Rightarrow> Some (solution, console_log (''Solved: '' @ Number_toString solution) w1))"

definition addBlock ::
  "Crypto \<Rightarrow> int \<Rightarrow> int \<Rightarrow> Transaction \<Rightarrow> string \<Rightarrow> Buffer \<Rightarrow> World \<Rightarrow> error + World" where
  "addBlock cr now rnd t senderPublicKey signature w =
     (case SHA256_verify cr (Transaction_toString t) senderPublicKey signature of
        Inl e \<Rightarrow> Inl e
      | Inr isValid \<Rightarrow>
          if isValid then
            (case lastBlock (Chain_instance w) of
               None \<Rightarrow> Inl TypeError
             | Some b \<Rightarrow>
                 let newBlock = Block_new (hash cr b) t now rnd in
                 Inr (w\<lparr>Chain_instance :=
                        \<lparr>chain_blocks = chain_blocks (Chain_instance w) @ [newBlock]\<rparr>\<rparr>))
          else Inr w)"

subsection \<open>Wallet\<close>

record Wallet =
  publicKey :: string
  privateKey :: string

definition sendMoney ::
  "Crypto \<Rightarrow> int \<Rightarrow> int \<Rightarrow> Wallet \<Rightarrow> int \<Rightarrow> string \<Rightarrow> World \<Rightarrow> error + World" where
  "sendMoney cr now rnd this amt payeePublicKey w =
     (let t = Transaction_new amt (publicKey this) payeePublicKey in
      case SHA256_sign cr (Transaction_toString t) (privateKey this) of
        Inl e \<Rightarrow> Inl e
      | Inr signature \<Rightarrow> addBlock cr now rnd t (publicKey this) signature w)"

subsection \<open>The states the program can reach\<close>

text \<open>
  \<open>reachable cr w0 w\<close>: the world \<open>w\<close> is reached from \<open>w0\<close> by calls of
  \<^verbatim>\<open>addBlock\<close> and \<^verbatim>\<open>mine\<close> that return. A call of \<^verbatim>\<open>addBlock\<close> that
  throws has not touched the chain, and a call of \<^verbatim>\<open>mine\<close> that does not return
  has no state after it, so these add no further states.
\<close>

inductive reachable :: "Crypto \<Rightarrow> World \<Rightarrow> World \<Rightarrow> bool" for cr :: Crypto and w0 :: World where
  start: "reachable cr w0 w0"
| add: "reachable cr w0 w \<Longrightarrow> addBlock cr now rnd t k sg w = Inr w' \<Longrightarrow> reachable cr w0 w'"
| mined: "reachable cr w0 w \<Longrightarrow> mine cr n w = Some (s, w') \<Longrightarrow> reachable cr w0 w'"

subsection \<open>A concrete instance for running the model\<close>

text \<open>
  A small stand-in for the cryptography, on which every operation of the model can be
  evaluated: the SHA256 digest of a string is the decimal length of the string, the MD5
  digest begins with \<^verbatim>\<open>0000\<close> for the string \<^verbatim>\<open>8\<close> only, and a signature is
  the bytes of the key followed by the payload, so that the two keys of a pair coincide.
  The empty key is malformed.
\<close>

definition byte_of_char :: "char \<Rightarrow> 8 word" where
  "byte_of_char c = of_nat (of_char c)"

definition demo_crypto :: Crypto where
  "demo_crypto =
     \<lparr>SHA256_hex = (\<lambda>s. Number_toString (int (length s))),
      MD5_hex = (\<lambda>s. if s = ''8'' then ''0000cafe'' else ''ffff''),
      SHA256_sign = (\<lambda>s key. if key = [] then Inl CryptoError
                              else Inr (map byte_of_char (key @ s))),
      SHA256_verify = (\<lambda>s key sg. if key = [] then Inl CryptoError
                              else Inr (sg = map byte_of_char (key @ s)))\<rparr>"

definition demo_tx :: Transaction where
  "demo_tx = Transaction_new 50 ''alice'' ''bob''"

definition demo_sig :: "string \<Rightarrow> Transaction \<Rightarrow> Buffer" where
  "demo_sig key t = map byte_of_char (key @ Transaction_toString t)"

definition demo_wallet :: Wallet where
  "demo_wallet = \<lparr>publicKey = ''alice'', privateKey = ''alice''\<rparr>"

definition demo_world1 :: World where
  "demo_world1 =
     \<lparr>Chain_instance = \<lparr>chain_blocks =
        [Block_new '''' (Transaction_new 500 ''initial'' ''Daniel'') 0 0,
         Block_new ''96'' demo_tx 10 20]\<rparr>,
      console = []\<rparr>"

text \<open>
  A second instance for \<^verbatim>\<open>mine\<close> at a large seed. Its MD5 digest is the true MD5
  digest on the two strings it lists, \<^verbatim>\<open>1.6225927682921336e+32\<close> (the number
  \<open>2 ^ 107\<close>) and \<^verbatim>\<open>1.622592768300909e+32\<close> (the number \<open>2 ^ 107 + 24357 * 2 ^ 55\<close>);
  no other string is looked up where it is used.
\<close>

definition md5_excerpt :: "string \<Rightarrow> string" where
  "md5_excerpt s =
     (if s = ''1.6225927682921336e+32'' then ''893d55e300bf95715faf0dd181a489e1''
      else if s = ''1.622592768300909e+32'' then ''0000319559d87439e5261ca3c18e8e7a''
      else ''ffffffffffffffffffffffffffffffff'')"

definition excerpt_crypto :: Crypto where
  "excerpt_crypto = demo_crypto\<lparr>MD5_hex := md5_excerpt\<rparr>"

section \<open>Auxiliary facts\<close>

subsection \<open>Numbers\<close>

lemma binary64_round_exact:
  assumes "\<bar>n\<bar> \<le> 2 ^ 53"
  shows "binary64_round n = n"
proof (cases "\<bar>n\<bar> < 2 ^ 53")
  case True
  then have "bitlen \<bar>n\<bar> \<le> 53" by (simp add: bitlen_le_iff_power)
  then show ?thesis by (simp add: binary64_round_def Let_def)
next
  case False
  with assms have a: "\<bar>n\<bar> = 2 ^ 53" by simp
  have "bitlen ((2::int) ^ 53) = 54"
    using bitlen_twopow_add_eq [of 0 53] by simp
  with a have e: "nat (bitlen \<bar>n\<bar> - 53) = 1" by simp
  have "n = sgn n * \<bar>n\<bar>" by (simp add: sgn_mult_abs)
  then have "sgn n * 2 ^ 53 = n" using a by simp
  then show ?thesis using a e by (simp add: binary64_round_def Let_def)
qed

lemma js_add_safe: "\<bar>a + b\<bar> \<le> 2 ^ 53 \<Longrightarrow> js_add a b = a + b"
  by (simp add: js_add_def binary64_round_exact)

lemma binary64_round_ge:
  assumes "2 ^ 53 \<le> n"
  shows "2 ^ 53 \<le> binary64_round n"
proof (cases "n = 2 ^ 53")
  case True
  then show ?thesis by (simp add: binary64_round_exact)
next
  case False
  with assms have n: "2 ^ 53 < n" by simp
  then have pos: "0 < n" by simp
  define e where "e = nat (bitlen n - 53)"
  have nb: "\<not> bitlen n \<le> 53" using n by (simp add: bitlen_le_iff_power)
  then have e1: "1 \<le> e" and be: "bitlen n = 53 + int e" by (simp_all add: e_def)
  from bitlen_bounds [OF pos] be have "2 ^ (52 + e) \<le> n"
    by (simp add: nat_add_distrib)
  then have "2 ^ 52 * 2 ^ e \<le> n" by (simp add: power_add)
  then have "(2 ^ 52 * 2 ^ e) div 2 ^ e \<le> n div 2 ^ e"
    by (rule zdiv_mono1) simp
  then have q: "2 ^ 52 \<le> n div 2 ^ e" by simp
  define q' where "q' = (if 2 ^ (e - 1) < n mod 2 ^ e \<or> (n mod 2 ^ e = 2 ^ (e - 1) \<and> odd (n div 2 ^ e))
     then n div 2 ^ e + 1 else n div 2 ^ e)"
  have q': "2 ^ 52 \<le> q'" using q by (simp add: q'_def)
  have "(2::int) ^ 1 \<le> 2 ^ e" using e1 by (intro power_increasing) simp_all
  then have "(2::int) \<le> 2 ^ e" by simp
  with q' have "2 ^ 52 * 2 \<le> q' * 2 ^ e" by (intro mult_mono) simp_all
  then have "2 ^ 53 \<le> q' * 2 ^ e" by simp
  moreover have "binary64_round n = q' * 2 ^ e"
    using pos e1 nb by (simp add: binary64_round_def Let_def e_def [symmetric] q'_def)
  ultimately show ?thesis by simp
qed

text \<open>Near \<open>2 ^ 107\<close> the binary64 numbers are \<open>2 ^ 55\<close> apart: adding up to \<open>2 ^ 53\<close> is lost.\<close>

lemma binary64_round_absorb:
  assumes "0 \<le> k" and "k \<le> 2 ^ 53"
  shows "binary64_round (2 ^ 107 + k) = 2 ^ 107"
proof -
  have k55: "k < 2 ^ 55" and k107: "k < 2 ^ 107" using assms(2) by simp_all
  have b: "bitlen (2 ^ 107 + k) = 108"
    using bitlen_twopow_add_eq [OF assms(1) k107] by simp
  have pos: "\<bar>2 ^ 107 + k\<bar> = 2 ^ 107 + k" using assms(1) by simp
  have split: "(2::int) ^ 107 + k = k + 2 ^ 52 * 2 ^ 55" by simp
  have d: "(2 ^ 107 + k) div 2 ^ 55 = 2 ^ 52"
    unfolding split using assms(1) k55 by (simp only: div_mult_self1) (simp add: div_pos_pos_trivial)
  have m: "(2 ^ 107 + k) mod 2 ^ 55 = k"
    unfolding split using assms(1) k55 by (simp only: mod_mult_self1) (simp add: mod_pos_pos_trivial)
  have h: "\<not> 2 ^ 54 < k" "k \<noteq> 2 ^ 54" using assms(2) by simp_all
  have s: "sgn ((2::int) ^ 107 + k) = 1" using assms(1) by simp
  show ?thesis
    unfolding binary64_round_def Let_def pos b s
    using d m h by simp
qed

text \<open>The counter of the loop: it counts up to \<open>2 ^ 53\<close> and stays there.\<close>

lemma js_add_counter:
  "1 \<le> k \<Longrightarrow> k < 2 ^ 53 \<Longrightarrow> js_add k 1 = k + 1"
  "js_add (2 ^ 53) 1 = 2 ^ 53"
proof -
  show "js_add k 1 = k + 1" if "1 \<le> k" "k < 2 ^ 53"
    using that by (simp add: js_add_def binary64_round_exact)
  show "js_add (2 ^ 53) 1 = 2 ^ 53"
    by code_simp
qed

lemma int_digits_length:
  "0 \<le> n \<Longrightarrow> n < 10 ^ Suc k \<Longrightarrow> length (int_digits n) \<le> Suc k"
proof (induction k arbitrary: n)
  case 0
  then show ?case by (subst int_digits.simps) simp
next
  case (Suc k)
  show ?case
  proof (cases "n < 10")
    case True
    then show ?thesis by (subst int_digits.simps) simp
  next
    case False
    have "0 \<le> n div 10" using Suc.prems(1) by simp
    moreover have "n div 10 < 10 ^ Suc k" using Suc.prems(2) by simp
    ultimately have "length (int_digits (n div 10)) \<le> Suc k" by (rule Suc.IH)
    with False show ?thesis by (subst int_digits.simps) simp
  qed
qed

text \<open>Below \<open>2 ^ 53\<close> the shortest decimal of an integer is the integer itself.\<close>

lemma shortest_decimal_safe:
  assumes "0 \<le> m" and "m < 2 ^ 53"
  shows "shortest_decimal m p = m"
proof (induction p)
  case 0
  show ?case by simp
next
  case (Suc p)
  define P :: int where "P = 10 ^ Suc p"
  define lo where "lo = m div P * P"
  have P: "0 < P" by (simp add: P_def)
  have dec: "m = lo + m mod P" by (simp add: lo_def)
  have "0 \<le> m mod P" and "m mod P < P" using P by simp_all
  with dec have lo_le: "lo \<le> m" and hi_gt: "m < lo + P" by linarith+
  have "0 \<le> m div P" using assms(1) P by (simp add: pos_imp_zdiv_nonneg_iff)
  then have lo_ge: "0 \<le> lo" using P by (simp add: lo_def)
  have ok_lo: "binary64_round lo = lo"
    using lo_le lo_ge assms(2) by (intro binary64_round_exact) simp
  have ok_hi: "binary64_round (lo + P) \<noteq> m"
  proof (cases "lo + P < 2 ^ 53")
    case True
    then have "binary64_round (lo + P) = lo + P"
      using lo_ge P by (intro binary64_round_exact) simp
    with hi_gt show ?thesis by simp
  next
    case False
    then have "2 ^ 53 \<le> binary64_round (lo + P)" by (intro binary64_round_ge) simp
    with assms(2) show ?thesis by simp
  qed
  show ?case
    using ok_lo ok_hi Suc.IH
    by (simp add: Let_def P_def [symmetric] lo_def [symmetric] del: power_Suc)
qed

lemma Number_toString_safe:
  assumes "0 \<le> n" and "n < 2 ^ 53"
  shows "Number_toString n = int_digits n"
proof -
  have "n < 10 ^ Suc 20" using assms(2) by simp
  with assms(1) have "length (int_digits n) \<le> Suc 20" by (rule int_digits_length)
  then show ?thesis
    using assms by (simp add: Number_toString_def Number_toString_abs_def shortest_decimal_safe)
qed

subsection \<open>The ledger\<close>


lemma lastBlock_nonempty:
  "chain_blocks c \<noteq> [] \<Longrightarrow> lastBlock c = Some (last (chain_blocks c))"
  by (simp add: lastBlock_def array_get_def last_conv_nth nat_diff_distrib')

lemma lastBlock_None_iff: "lastBlock c = None \<longleftrightarrow> chain_blocks c = []"
  by (auto simp: lastBlock_def array_get_def)

lemma mine_frame:
  "mine cr n w = Some (s, w') \<Longrightarrow>
     Chain_instance w' = Chain_instance w \<and>
     console w' = console w @ [''mining...'', ''Solved: '' @ Number_toString s]"
  by (auto simp: mine_def console_log_def Let_def split: option.splits)

lemma addBlock_when_valid:
  assumes "SHA256_verify cr (Transaction_toString t) k sg = Inr True"
    and "chain_blocks (Chain_instance w) \<noteq> []"
  shows "addBlock cr now rnd t k sg w =
     Inr (w\<lparr>Chain_instance := \<lparr>chain_blocks = chain_blocks (Chain_instance w) @
        [Block_new (hash cr (last (chain_blocks (Chain_instance w)))) t now rnd]\<rparr>\<rparr>)"
  using assms by (simp add: addBlock_def lastBlock_nonempty Let_def)

lemma addBlock_when_invalid:
  "SHA256_verify cr (Transaction_toString t) k sg = Inr False \<Longrightarrow> addBlock cr now rnd t k sg w = Inr w"
  by (simp add: addBlock_def)

lemma addBlock_Inr_cases:
  assumes "addBlock cr now rnd t k sg w = Inr w'"
  shows "w' = w \<or>
     (chain_blocks (Chain_instance w) \<noteq> [] \<and>
      w' = w\<lparr>Chain_instance := \<lparr>chain_blocks = chain_blocks (Chain_instance w) @
        [Block_new (hash cr (last (chain_blocks (Chain_instance w)))) t now rnd]\<rparr>\<rparr>)"
proof (cases "SHA256_verify cr (Transaction_toString t) k sg")
  case (Inl e)
  with assms show ?thesis by (simp add: addBlock_def)
next
  case (Inr isValid)
  show ?thesis
  proof (cases isValid)
    case False
    with Inr assms show ?thesis by (simp add: addBlock_def)
  next
    case True
    show ?thesis
    proof (cases "chain_blocks (Chain_instance w) = []")
      case True
      then have "lastBlock (Chain_instance w) = None" by (simp add: lastBlock_None_iff)
      with Inr \<open>isValid\<close> assms show ?thesis by (simp add: addBlock_def)
    next
      case False
      with Inr \<open>isValid\<close> assms addBlock_when_valid [of cr t k sg w now rnd] show ?thesis by simp
    qed
  qed
qed

lemma linked_snoc:
  assumes ne: "bs \<noteq> []"
    and lk: "\<forall>i. 0 < i \<and> i < length bs \<longrightarrow> prevHash (bs ! i) = hash cr (bs ! (i - 1))"
    and nb: "prevHash b = hash cr (last bs)"
  shows "\<forall>i. 0 < i \<and> i < length (bs @ [b]) \<longrightarrow>
           prevHash ((bs @ [b]) ! i) = hash cr ((bs @ [b]) ! (i - 1))"
proof (intro allI impI)
  fix i assume i: "0 < i \<and> i < length (bs @ [b])"
  show "prevHash ((bs @ [b]) ! i) = hash cr ((bs @ [b]) ! (i - 1))"
  proof (cases "i < length bs")
    case True
    with i have "i - 1 < length bs" by simp
    with True i lk show ?thesis by (simp add: nth_append)
  next
    case False
    with i have "i = length bs" by simp
    with ne nb show ?thesis by (simp add: nth_append last_conv_nth)
  qed
qed

lemma reachable_invariant:
  assumes "reachable cr (World_new gnow grnd) w"
  shows "chain_blocks (Chain_instance w) \<noteq> [] \<and>
     chain_blocks (Chain_instance w) ! 0 =
       Block_new '''' (Transaction_new 500 ''initial'' ''Daniel'') gnow grnd \<and>
     (\<forall>i. 0 < i \<and> i < length (chain_blocks (Chain_instance w)) \<longrightarrow>
        prevHash (chain_blocks (Chain_instance w) ! i) =
        hash cr (chain_blocks (Chain_instance w) ! (i - 1)))"
  using assms
proof (induction rule: reachable.induct)
  case start
  show ?case by (simp add: World_new_def Chain_new_def)
next
  case (add w now rnd t k sg w')
  from addBlock_Inr_cases [OF add.hyps(2)] show ?case
  proof
    assume "w' = w"
    with add.IH show ?thesis by simp
  next
    assume a: "chain_blocks (Chain_instance w) \<noteq> [] \<and>
      w' = w\<lparr>Chain_instance := \<lparr>chain_blocks = chain_blocks (Chain_instance w) @
        [Block_new (hash cr (last (chain_blocks (Chain_instance w)))) t now rnd]\<rparr>\<rparr>"
    let ?bs = "chain_blocks (Chain_instance w)"
    let ?b = "Block_new (hash cr (last ?bs)) t now rnd"
    from a have eq: "chain_blocks (Chain_instance w') = ?bs @ [?b]" by simp
    have nb: "prevHash ?b = hash cr (last ?bs)" by (simp add: Block_new_def)
    from add.IH have ne: "?bs \<noteq> []" and
      lk: "\<forall>i. 0 < i \<and> i < length ?bs \<longrightarrow> prevHash (?bs ! i) = hash cr (?bs ! (i - 1))"
      and g: "?bs ! 0 = Block_new '''' (Transaction_new 500 ''initial'' ''Daniel'') gnow grnd"
      by simp_all
    from ne g have "(?bs @ [?b]) ! 0 = Block_new '''' (Transaction_new 500 ''initial'' ''Daniel'') gnow grnd"
      by (simp add: nth_append)
    with linked_snoc [OF ne lk nb] show ?thesis unfolding eq by simp
  qed
next
  case (mined w n s w')
  from mine_frame [OF mined.hyps(2)] mined.IH show ?case by simp
qed

lemma substr_0000_prefix: "substr d 0 4 = ''0000'' \<longleftrightarrow> (\<exists>rest. d = ''0000'' @ rest)"
proof
  assume "substr d 0 4 = ''0000''"
  then have "take 4 d = ''0000''" by (simp add: substr_def)
  then have "d = ''0000'' @ drop 4 d" by (metis append_take_drop_id)
  then show "\<exists>rest. d = ''0000'' @ rest" ..
next
  assume "\<exists>rest. d = ''0000'' @ rest"
  then show "substr d 0 4 = ''0000''" by (auto simp: substr_def)
qed

lemma mine_loop_finds:
  assumes "1 \<le> solution" and "solution \<le> r" and "r \<le> 2 ^ 53"
    and "substr (MD5_hex cr (Number_toString (js_add seed r))) 0 4 = ''0000''"
    and "\<forall>k. solution \<le> k \<and> k < r \<longrightarrow>
           substr (MD5_hex cr (Number_toString (js_add seed k))) 0 4 \<noteq> ''0000''"
  shows "mine_loop cr seed solution = Some r"
  using assms
proof (induction "nat (r - solution)" arbitrary: solution)
  case 0
  then have "solution = r" by simp
  with "0.prems" show ?case by (subst mine_loop.simps) simp
next
  case (Suc d)
  then have lt: "solution < r" by simp
  with Suc.prems have no:
    "substr (MD5_hex cr (Number_toString (js_add seed solution))) 0 4 \<noteq> ''0000''"
    by simp
  have step: "js_add solution 1 = solution + 1"
    using Suc.prems(1,3) lt by (simp add: js_add_counter)
  have "d = nat (r - (solution + 1))" using Suc.hyps(2) by simp
  moreover have "1 \<le> solution + 1" using Suc.prems(1) by simp
  moreover have "solution + 1 \<le> r" using lt by simp
  moreover have "\<forall>k. solution + 1 \<le> k \<and> k < r \<longrightarrow>
      substr (MD5_hex cr (Number_toString (js_add seed k))) 0 4 \<noteq> ''0000''"
    using Suc.prems(5) by simp
  ultimately have "mine_loop cr seed (solution + 1) = Some r"
    using Suc.hyps(1) Suc.prems(3,4) by blast
  with no step show ?case by (subst mine_loop.simps) simp
qed

text \<open>What the loop returns, if it returns: a counter value that passes the test.\<close>

lemma mine_loop_sound:
  assumes "mine_loop cr seed k = Some y"
  shows "1 \<le> k \<and> k \<le> 2 ^ 53 \<longrightarrow>
     k \<le> y \<and> y \<le> 2 ^ 53 \<and>
     substr (MD5_hex cr (Number_toString (js_add seed y))) 0 4 = ''0000''"
proof (rule mine_loop.raw_induct [where P = "\<lambda>cr seed k y. 1 \<le> k \<and> k \<le> 2 ^ 53 \<longrightarrow>
     k \<le> y \<and> y \<le> 2 ^ 53 \<and>
     substr (MD5_hex cr (Number_toString (js_add seed y))) 0 4 = ''0000''", OF _ assms])
  fix f :: "Crypto \<Rightarrow> int \<Rightarrow> int \<Rightarrow> int option" and cr seed k y
  assume IH: "\<And>cr seed k y. f cr seed k = Some y \<Longrightarrow> 1 \<le> k \<and> k \<le> 2 ^ 53 \<longrightarrow>
     k \<le> y \<and> y \<le> 2 ^ 53 \<and>
     substr (MD5_hex cr (Number_toString (js_add seed y))) 0 4 = ''0000''"
    and body: "(let attempt = MD5_hex cr (Number_toString (js_add seed k)) in
      if substr attempt 0 4 = ''0000'' then Some k
      else f cr seed (js_add k 1)) = Some y"
  show "1 \<le> k \<and> k \<le> 2 ^ 53 \<longrightarrow>
     k \<le> y \<and> y \<le> 2 ^ 53 \<and>
     substr (MD5_hex cr (Number_toString (js_add seed y))) 0 4 = ''0000''"
  proof
    assume r: "1 \<le> k \<and> k \<le> 2 ^ 53"
    show "k \<le> y \<and> y \<le> 2 ^ 53 \<and>
     substr (MD5_hex cr (Number_toString (js_add seed y))) 0 4 = ''0000''"
    proof (cases "substr (MD5_hex cr (Number_toString (js_add seed k))) 0 4 = ''0000''")
      case True
      with body have "y = k" by simp
      with True r show ?thesis by simp
    next
      case False
      with body have "f cr seed (js_add k 1) = Some y" by simp
      from IH [OF this] have next_ok: "1 \<le> js_add k 1 \<and> js_add k 1 \<le> 2 ^ 53 \<longrightarrow>
         js_add k 1 \<le> y \<and> y \<le> 2 ^ 53 \<and>
         substr (MD5_hex cr (Number_toString (js_add seed y))) 0 4 = ''0000''" .
      have "k \<le> js_add k 1 \<and> 1 \<le> js_add k 1 \<and> js_add k 1 \<le> 2 ^ 53"
      proof (cases "k < 2 ^ 53")
        case True
        with r show ?thesis by (simp add: js_add_counter)
      next
        case False
        with r have "k = 2 ^ 53" by simp
        then show ?thesis by (simp only: js_add_counter) simp
      qed
      with next_ok show ?thesis by linarith
    qed
  qed
qed

lemma least_int_solution:
  fixes P :: "int \<Rightarrow> bool"
  assumes "\<exists>s\<ge>1. P s"
  shows "\<exists>r\<ge>1. P r \<and> (\<forall>k. 1 \<le> k \<and> k < r \<longrightarrow> \<not> P k)"
proof -
  from assms obtain s where s: "1 \<le> s" "P s" by blast
  define Q where "Q n = P (1 + int n)" for n
  have "Q (nat (s - 1))" using s by (simp add: Q_def)
  then have least: "Q (LEAST n. Q n)" by (rule LeastI)
  have min: "\<not> Q n" if "n < (LEAST n. Q n)" for n using that by (rule not_less_Least)
  define r where "r = 1 + int (LEAST n. Q n)"
  have "1 \<le> r" "P r" using least by (simp_all add: r_def Q_def)
  moreover have "\<forall>k. 1 \<le> k \<and> k < r \<longrightarrow> \<not> P k"
  proof (intro allI impI)
    fix k assume k: "1 \<le> k \<and> k < r"
    then have "nat (k - 1) < (LEAST n. Q n)" unfolding r_def by linarith
    from min [OF this] k show "\<not> P k" by (simp add: Q_def)
  qed
  ultimately show ?thesis by blast
qed

subsection \<open>Evaluating the concrete instance\<close>

lemma demo_md5: "MD5_hex demo_crypto s = (if s = ''8'' then ''0000cafe'' else ''ffff'')"
  by (simp add: demo_crypto_def)

lemma demo_numbers:
  "Number_toString 6 = ''6''" "Number_toString 7 = ''7''" "Number_toString 8 = ''8''"
  "Number_toString 3 = ''3''"
  by (simp_all add: Number_toString_safe int_digits.simps digit_char_def)

lemma demo_loop: "mine_loop demo_crypto 5 1 = Some 3"
proof -
  have "mine_loop demo_crypto 5 3 = Some 3"
    by (subst mine_loop.simps) (simp add: demo_md5 demo_numbers substr_def js_add_safe)
  then have "mine_loop demo_crypto 5 2 = Some 3"
    by (subst mine_loop.simps) (simp add: demo_md5 demo_numbers substr_def js_add_safe)
  then show ?thesis
    by (subst mine_loop.simps) (simp add: demo_md5 demo_numbers substr_def js_add_safe)
qed

text \<open>
  At the seed \<open>2 ^ 53\<close> the loop digests the rounded sums \<open>2 ^ 53\<close>, \<open>2 ^ 53 + 2\<close> and
  \<open>2 ^ 53 + 4\<close>: when the string of the last is the first to pass, the answer is 3.
\<close>

lemma rounded_sums:
  "Number_toString (js_add (2 ^ 53) 1) = ''9007199254740992''"
  "Number_toString (js_add (2 ^ 53) 2) = ''9007199254740994''"
  "Number_toString (js_add (2 ^ 53) 3) = ''9007199254740996''"
  by code_simp+

lemma mine_loop_rounded_seed:
  "mine_loop (demo_crypto\<lparr>MD5_hex := (\<lambda>s. if s = ''9007199254740996'' then ''0000'' else ''ffff'')\<rparr>)
     (2 ^ 53) 1 = Some 3"
proof -
  let ?cr = "demo_crypto\<lparr>MD5_hex := (\<lambda>s. if s = ''9007199254740996'' then ''0000'' else ''ffff'')\<rparr>"
  have c: "js_add 1 1 = 2" "js_add 2 1 = 3" by (simp_all add: js_add_safe)
  have "mine_loop ?cr (2 ^ 53) 3 = Some 3"
    by (subst mine_loop.simps) (simp only: rounded_sums Let_def, simp add: substr_def)
  then have "mine_loop ?cr (2 ^ 53) 2 = Some 3"
    by (subst mine_loop.simps) (simp only: rounded_sums c Let_def, simp add: substr_def)
  then show ?thesis
    by (subst mine_loop.simps) (simp only: rounded_sums c Let_def, simp add: substr_def)
qed

text \<open>The two strings of the second instance.\<close>

lemma excerpt_strings:
  "Number_toString (2 ^ 107) = ''1.6225927682921336e+32''"
  "Number_toString (js_add (2 ^ 107) (24357 * 2 ^ 55)) = ''1.622592768300909e+32''"
  "js_add (2 ^ 107) (24357 * 2 ^ 55) = 2 ^ 107 + 24357 * 2 ^ 55"
  by code_simp+

lemma excerpt_loop: "mine_loop excerpt_crypto (2 ^ 107) 1 = None"
proof (rule ccontr)
  assume "mine_loop excerpt_crypto (2 ^ 107) 1 \<noteq> None"
  then obtain y where "mine_loop excerpt_crypto (2 ^ 107) 1 = Some y" by auto
  from mine_loop_sound [OF this] have y: "1 \<le> y" "y \<le> 2 ^ 53"
    and t: "substr (MD5_hex excerpt_crypto (Number_toString (js_add (2 ^ 107) y))) 0 4 = ''0000''"
    by simp_all
  have "0 \<le> y" using y(1) by simp
  then have "js_add (2 ^ 107) y = 2 ^ 107"
    unfolding js_add_def using y(2) by (rule binary64_round_absorb)
  with t have "substr (MD5_hex excerpt_crypto ''1.6225927682921336e+32'') 0 4 = ''0000''"
    by (simp only: excerpt_strings)
  then show False by (simp add: excerpt_crypto_def md5_excerpt_def substr_def)
qed

lemma demo_verify_ok:
  "SHA256_verify demo_crypto (Transaction_toString t) ''alice'' (demo_sig ''alice'' t) = Inr True"
  by (simp add: demo_crypto_def demo_sig_def)

lemma demo_verify_bad:
  "SHA256_verify demo_crypto (Transaction_toString t) ''bob'' (demo_sig ''alice'' t) = Inr False"
  by (simp add: demo_crypto_def demo_sig_def byte_of_char_def)

lemma demo_sign:
  "SHA256_sign demo_crypto (Transaction_toString t) ''alice'' = Inr (demo_sig ''alice'' t)"
  by (simp add: demo_crypto_def demo_sig_def)

lemma demo_hash_genesis:
  "hash demo_crypto (Block_new '''' (Transaction_new 500 ''initial'' ''Daniel'') 0 0) = ''96''"
  by (simp add: hash_def demo_crypto_def Block_stringify_def Transaction_stringify_def
      QuoteJSONString_def QuoteJSONChar_def Number_toString_safe int_digits.simps digit_char_def
      Block_new_def Transaction_new_def)

lemma demo_step:
  "addBlock demo_crypto 10 20 demo_tx ''alice'' (demo_sig ''alice'' demo_tx) (World_new 0 0) =
     Inr demo_world1"
proof -
  have "chain_blocks (Chain_instance (World_new 0 0)) \<noteq> []"
    by (simp add: World_new_def Chain_new_def)
  from addBlock_when_valid [OF demo_verify_ok this, where t = demo_tx and now = 10 and rnd = 20]
  show ?thesis
    by (simp add: World_new_def Chain_new_def demo_hash_genesis demo_world1_def)
qed

lemma demo_reachable: "reachable demo_crypto (World_new 0 0) demo_world1"
  by (rule reachable.add [OF reachable.start demo_step])

lemma demo_mine:
  "mine demo_crypto 5 demo_world1 =
     Some (3, demo_world1\<lparr>console := [''mining...'', ''Solved: 3'']\<rparr>)"
  by (simp add: mine_def demo_loop console_log_def demo_world1_def demo_numbers)

section \<open>The properties of the ledger\<close>

text \<open>
  \<^bold>\<open>C1.\<close> In every state the program can reach, a call of \<^verbatim>\<open>addBlock\<close> whose
  signature verifies against the given sender public key returns normally, makes the chain
  longer by exactly one block and keeps the blocks that were there; the new last block has
  as \<open>prevHash\<close> the hash of the block that was last before the call, and carries the
  transaction that was passed in.
\<close>

theorem addBlock_valid_appends:
  assumes "reachable cr (World_new gnow grnd) w"
    and "SHA256_verify cr (Transaction_toString t) senderPublicKey signature = Inr True"
  shows "\<exists>w'. addBlock cr now rnd t senderPublicKey signature w = Inr w' \<and>
     length (chain_blocks (Chain_instance w')) = length (chain_blocks (Chain_instance w)) + 1 \<and>
     butlast (chain_blocks (Chain_instance w')) = chain_blocks (Chain_instance w) \<and>
     prevHash (last (chain_blocks (Chain_instance w'))) =
       hash cr (last (chain_blocks (Chain_instance w))) \<and>
     transaction (last (chain_blocks (Chain_instance w'))) = t"
proof -
  from reachable_invariant [OF assms(1)] have "chain_blocks (Chain_instance w) \<noteq> []" by simp
  from addBlock_when_valid [OF assms(2) this] show ?thesis by (simp add: Block_new_def)
qed

text \<open>The theorem at a concrete input.\<close>

theorem addBlock_valid_appends_witness:
  "reachable demo_crypto (World_new 0 0) (World_new 0 0) \<and>
   SHA256_verify demo_crypto (Transaction_toString demo_tx) ''alice'' (demo_sig ''alice'' demo_tx)
     = Inr True \<and>
   (\<exists>w'. addBlock demo_crypto 10 20 demo_tx ''alice'' (demo_sig ''alice'' demo_tx) (World_new 0 0)
            = Inr w' \<and>
     length (chain_blocks (Chain_instance w')) =
       length (chain_blocks (Chain_instance (World_new 0 0))) + 1 \<and>
     butlast (chain_blocks (Chain_instance w')) = chain_blocks (Chain_instance (World_new 0 0)) \<and>
     prevHash (last (chain_blocks (Chain_instance w'))) =
       hash demo_crypto (last (chain_blocks (Chain_instance (World_new 0 0)))) \<and>
     transaction (last (chain_blocks (Chain_instance w'))) = demo_tx)"
  using addBlock_valid_appends [OF reachable.start demo_verify_ok,
      where gnow = 0 and grnd = 0 and t = demo_tx and now = 10 and rnd = 20]
    reachable.start [of demo_crypto "World_new 0 0"] demo_verify_ok [of demo_tx]
  by blast

text \<open>
  \<^bold>\<open>C2.\<close> When the verifier answers \<^verbatim>\<open>false\<close>, \<^verbatim>\<open>addBlock\<close> returns
  normally (no error) and leaves the whole state as it was: the chain, with its length and
  every block, is unchanged and no block is created. This holds in any state.
\<close>

theorem addBlock_invalid_noop:
  assumes "SHA256_verify cr (Transaction_toString t) senderPublicKey signature = Inr False"
  shows "addBlock cr now rnd t senderPublicKey signature w = Inr w"
  using assms by (rule addBlock_when_invalid)

text \<open>The theorem at a concrete input.\<close>

theorem addBlock_invalid_noop_witness:
  "SHA256_verify demo_crypto (Transaction_toString demo_tx) ''bob'' (demo_sig ''alice'' demo_tx)
     = Inr False \<and>
   addBlock demo_crypto 10 20 demo_tx ''bob'' (demo_sig ''alice'' demo_tx) demo_world1
     = Inr demo_world1"
  using addBlock_invalid_noop [OF demo_verify_bad,
      where t = demo_tx and now = 10 and rnd = 20 and w = demo_world1]
    demo_verify_bad [of demo_tx]
  by simp

text \<open>
  \<^bold>\<open>C3.\<close> In every state reached from construction by calls of \<^verbatim>\<open>addBlock\<close> and
  \<^verbatim>\<open>mine\<close>, the chain has at least one block, the block at index 0 is the genesis block
  the constructor made, and every later block's \<open>prevHash\<close> is the recomputed hash of the
  block before it.
\<close>

theorem chain_linked_invariant:
  assumes "reachable cr (World_new gnow grnd) w"
  shows "1 \<le> length (chain_blocks (Chain_instance w)) \<and>
     chain_blocks (Chain_instance w) ! 0 =
       Block_new '''' (Transaction_new 500 ''initial'' ''Daniel'') gnow grnd \<and>
     (\<forall>i. 0 < i \<and> i < length (chain_blocks (Chain_instance w)) \<longrightarrow>
        prevHash (chain_blocks (Chain_instance w) ! i) =
        hash cr (chain_blocks (Chain_instance w) ! (i - 1)))"
proof -
  from reachable_invariant [OF assms]
  have ne: "chain_blocks (Chain_instance w) \<noteq> []"
    and rest: "chain_blocks (Chain_instance w) ! 0 =
       Block_new '''' (Transaction_new 500 ''initial'' ''Daniel'') gnow grnd \<and>
     (\<forall>i. 0 < i \<and> i < length (chain_blocks (Chain_instance w)) \<longrightarrow>
        prevHash (chain_blocks (Chain_instance w) ! i) =
        hash cr (chain_blocks (Chain_instance w) ! (i - 1)))"
    by simp_all
  from ne have "1 \<le> length (chain_blocks (Chain_instance w))"
    by (cases "chain_blocks (Chain_instance w)") simp_all
  with rest show ?thesis by simp
qed

text \<open>The theorem at a concrete input.\<close>

theorem chain_linked_invariant_witness:
  "reachable demo_crypto (World_new 0 0) demo_world1 \<and>
   length (chain_blocks (Chain_instance demo_world1)) = 2 \<and>
   chain_blocks (Chain_instance demo_world1) ! 0 =
     Block_new '''' (Transaction_new 500 ''initial'' ''Daniel'') 0 0 \<and>
   prevHash (chain_blocks (Chain_instance demo_world1) ! 1) =
     hash demo_crypto (chain_blocks (Chain_instance demo_world1) ! 0)"
proof -
  have len: "length (chain_blocks (Chain_instance demo_world1)) = 2"
    by (simp add: demo_world1_def)
  from chain_linked_invariant [OF demo_reachable]
  have "chain_blocks (Chain_instance demo_world1) ! 0 =
       Block_new '''' (Transaction_new 500 ''initial'' ''Daniel'') 0 0"
    and "\<forall>i. 0 < i \<and> i < length (chain_blocks (Chain_instance demo_world1)) \<longrightarrow>
        prevHash (chain_blocks (Chain_instance demo_world1) ! i) =
        hash demo_crypto (chain_blocks (Chain_instance demo_world1) ! (i - 1))"
    by simp_all
  with len demo_reachable show ?thesis by simp
qed

text \<open>
  \<^bold>\<open>C4.\<close> As amended: for an integer-valued seed, if some integer \<open>s\<close> with
  \<open>1 \<le> s \<le> 2 ^ 53\<close> passes the test of the loop (the first four characters of the MD5
  hex digest of the string of the number \<open>seed + s\<close> are \<^verbatim>\<open>0000\<close>, the sum being the
  sum of numbers), then \<^verbatim>\<open>mine\<close> returns, and what it returns is the least such
  integer: it is at least 1, its digest begins with \<^verbatim>\<open>0000\<close>, and no smaller positive
  integer passes. The bound is the largest value the counter of the loop can take.
\<close>

theorem mine_returns_least_solution_in_range:
  assumes "\<exists>s. 1 \<le> s \<and> s \<le> 2 ^ 53 \<and>
     substr (MD5_hex cr (Number_toString (js_add seed s))) 0 4 = ''0000''"
  shows "\<exists>r w'. mine cr seed w = Some (r, w') \<and> 1 \<le> r \<and> r \<le> 2 ^ 53 \<and>
     substr (MD5_hex cr (Number_toString (js_add seed r))) 0 4 = ''0000'' \<and>
     (\<exists>rest. MD5_hex cr (Number_toString (js_add seed r)) = ''0000'' @ rest) \<and>
     (\<forall>k. 1 \<le> k \<and> k < r \<longrightarrow>
        substr (MD5_hex cr (Number_toString (js_add seed k))) 0 4 \<noteq> ''0000'')"
proof -
  from assms have "\<exists>s\<ge>1. s \<le> 2 ^ 53 \<and>
     substr (MD5_hex cr (Number_toString (js_add seed s))) 0 4 = ''0000''" by blast
  from least_int_solution [OF this] obtain r where r: "1 \<le> r" "r \<le> 2 ^ 53"
    "substr (MD5_hex cr (Number_toString (js_add seed r))) 0 4 = ''0000''"
    and least: "\<forall>k. 1 \<le> k \<and> k < r \<longrightarrow> \<not> (k \<le> 2 ^ 53 \<and>
        substr (MD5_hex cr (Number_toString (js_add seed k))) 0 4 = ''0000'')"
    by blast
  have m: "\<forall>k. 1 \<le> k \<and> k < r \<longrightarrow>
        substr (MD5_hex cr (Number_toString (js_add seed k))) 0 4 \<noteq> ''0000''"
  proof (intro allI impI)
    fix k assume k: "1 \<le> k \<and> k < r"
    with r(2) have "k \<le> 2 ^ 53" by simp
    with least k show "substr (MD5_hex cr (Number_toString (js_add seed k))) 0 4 \<noteq> ''0000''"
      by blast
  qed
  have "(1::int) \<le> 1" by simp
  from this r m have "mine_loop cr seed 1 = Some r" by (rule mine_loop_finds)
  then have ret: "mine cr seed w =
      Some (r, console_log (''Solved: '' @ Number_toString r) (console_log ''mining...'' w))"
    by (simp add: mine_def)
  from r(3) have "\<exists>rest. MD5_hex cr (Number_toString (js_add seed r)) = ''0000'' @ rest"
    by (simp only: substr_0000_prefix)
  with ret r m show ?thesis by blast
qed

text \<open>The theorem at a concrete input.\<close>

theorem mine_returns_least_solution_in_range_witness:
  "(\<exists>s. 1 \<le> s \<and> s \<le> 2 ^ 53 \<and>
     substr (MD5_hex demo_crypto (Number_toString (js_add 5 s))) 0 4 = ''0000'') \<and>
   (\<exists>r w'. mine demo_crypto 5 (World_new 0 0) = Some (r, w') \<and> 1 \<le> r \<and> r \<le> 2 ^ 53 \<and>
     substr (MD5_hex demo_crypto (Number_toString (js_add 5 r))) 0 4 = ''0000'' \<and>
     (\<exists>rest. MD5_hex demo_crypto (Number_toString (js_add 5 r)) = ''0000'' @ rest) \<and>
     (\<forall>k. 1 \<le> k \<and> k < r \<longrightarrow>
        substr (MD5_hex demo_crypto (Number_toString (js_add 5 k))) 0 4 \<noteq> ''0000''))"
proof -
  have "(1::int) \<le> 3 \<and> (3::int) \<le> 2 ^ 53 \<and>
      substr (MD5_hex demo_crypto (Number_toString (js_add 5 3))) 0 4 = ''0000''"
    by (simp add: demo_md5 demo_numbers substr_def js_add_safe)
  then have h: "\<exists>s. 1 \<le> s \<and> s \<le> 2 ^ 53 \<and>
     substr (MD5_hex demo_crypto (Number_toString (js_add 5 s))) 0 4 = ''0000''"
    by (rule exI [of _ 3])
  from mine_returns_least_solution_in_range [OF h, where w = "World_new 0 0"] h
  show ?thesis by simp
qed

text \<open>
  Claim C4 as first stated, for every seed that has a solution, fails at the seed
  \<open>2 ^ 107\<close>. The integer \<open>24357 * 2 ^ 55\<close> is a solution: the sum is exact, and the MD5
  digest of its string begins with \<^verbatim>\<open>0000\<close>. But the counter of the loop stops at
  \<open>2 ^ 53\<close>, adding any value up to there to the seed gives the seed again, and the digest
  of the seed's string does not begin with \<^verbatim>\<open>0000\<close>: the loop never returns.
\<close>

theorem mine_large_seed_counterexample:
  "(1::int) \<le> 24357 * 2 ^ 55 \<and>
   js_add (2 ^ 107) (24357 * 2 ^ 55) = 2 ^ 107 + 24357 * 2 ^ 55 \<and>
   substr (MD5_hex excerpt_crypto (Number_toString (js_add (2 ^ 107) (24357 * 2 ^ 55)))) 0 4
     = ''0000'' \<and>
   mine excerpt_crypto (2 ^ 107) (World_new 0 0) = None"
proof -
  have "substr (MD5_hex excerpt_crypto (Number_toString (js_add (2 ^ 107) (24357 * 2 ^ 55)))) 0 4
     = ''0000''"
    by (simp only: excerpt_strings(2)) (simp add: excerpt_crypto_def md5_excerpt_def substr_def)
  moreover have "mine excerpt_crypto (2 ^ 107) (World_new 0 0) = None"
    by (simp only: mine_def Let_def excerpt_loop option.case)
  moreover have "js_add (2 ^ 107) (24357 * 2 ^ 55) = 2 ^ 107 + 24357 * 2 ^ 55"
    by (rule excerpt_strings(3))
  ultimately show ?thesis by simp
qed

text \<open>
  \<^bold>\<open>C5.\<close> The proof-of-work search is not part of the append path. The result of
  \<^verbatim>\<open>addBlock\<close> is the same whatever the MD5 digest of the search is replaced by, and
  a returning \<^verbatim>\<open>addBlock\<close> writes nothing to the console, whereas \<^verbatim>\<open>mine\<close>
  always writes its two lines. In the other direction, a call of \<^verbatim>\<open>mine\<close> that
  returns leaves the chain, its length and every block, unchanged.
\<close>

theorem mine_not_in_append_path:
  "addBlock (cr\<lparr>MD5_hex := f\<rparr>) now rnd t senderPublicKey signature w =
     addBlock cr now rnd t senderPublicKey signature w \<and>
   (addBlock cr now rnd t senderPublicKey signature w = Inr w' \<longrightarrow> console w' = console w) \<and>
   (mine cr seed w = Some (s, w'') \<longrightarrow>
      Chain_instance w'' = Chain_instance w \<and>
      console w'' = console w @ [''mining...'', ''Solved: '' @ Number_toString s])"
proof (intro conjI impI)
  show "addBlock (cr\<lparr>MD5_hex := f\<rparr>) now rnd t senderPublicKey signature w =
     addBlock cr now rnd t senderPublicKey signature w"
    by (simp add: addBlock_def hash_def Let_def split: sum.splits option.splits)
next
  assume "addBlock cr now rnd t senderPublicKey signature w = Inr w'"
  from addBlock_Inr_cases [OF this] show "console w' = console w" by auto
next
  assume m: "mine cr seed w = Some (s, w'')"
  from mine_frame [OF m] show "Chain_instance w'' = Chain_instance w" by simp
  from mine_frame [OF m]
  show "console w'' = console w @ [''mining...'', ''Solved: '' @ Number_toString s]" by simp
qed

text \<open>The theorem at a concrete input.\<close>

theorem mine_not_in_append_path_witness:
  "addBlock demo_crypto 10 20 demo_tx ''alice'' (demo_sig ''alice'' demo_tx) (World_new 0 0)
     = Inr demo_world1 \<and>
   console demo_world1 = console (World_new 0 0) \<and>
   mine demo_crypto 5 demo_world1 =
     Some (3, demo_world1\<lparr>console := [''mining...'', ''Solved: 3'']\<rparr>) \<and>
   Chain_instance (demo_world1\<lparr>console := [''mining...'', ''Solved: 3'']\<rparr>) =
     Chain_instance demo_world1"
  using mine_not_in_append_path [where cr = demo_crypto and now = 10 and rnd = 20
      and t = demo_tx and senderPublicKey = "''alice''" and signature = "demo_sig ''alice'' demo_tx"
      and w = "World_new 0 0" and w' = demo_world1]
    mine_not_in_append_path [where cr = demo_crypto and seed = 5 and w = demo_world1 and s = 3
      and w'' = "demo_world1\<lparr>console := [''mining...'', ''Solved: 3'']\<rparr>"]
    demo_step demo_mine
  by simp

text \<open>
  \<^bold>\<open>C6.\<close> The getter \<^verbatim>\<open>hash\<close> is a function of the fields of the block alone: two
  blocks that agree on \<open>prevHash\<close>, on the three fields of the transaction, on \<open>ts\<close> and
  on \<open>nonce\<close> have the same hash, and the hash of a block is the hash of the block rebuilt
  from its field values. (Reading it twice on one block is the first part with both blocks
  the same.)
\<close>

theorem hash_deterministic:
  "(prevHash p = prevHash q \<and> amount (transaction p) = amount (transaction q) \<and>
    payer (transaction p) = payer (transaction q) \<and>
    payee (transaction p) = payee (transaction q) \<and>
    ts p = ts q \<and> nonce p = nonce q \<longrightarrow> hash cr p = hash cr q) \<and>
   hash cr b = hash cr (Block_new (prevHash b)
     (Transaction_new (amount (transaction b)) (payer (transaction b)) (payee (transaction b)))
     (ts b) (nonce b))"
  by (simp add: hash_def Block_stringify_def Transaction_stringify_def Block_new_def
      Transaction_new_def)

text \<open>The theorem at a concrete input.\<close>

theorem hash_deterministic_witness:
  "prevHash (Block_new ''96'' demo_tx 10 20) =
     prevHash \<lparr>prevHash = ''9'' @ ''6'',
       transaction = \<lparr>amount = 25 + 25, payer = ''alice'', payee = ''bob''\<rparr>,
       ts = 10, nonce = 20\<rparr> \<and>
   amount (transaction (Block_new ''96'' demo_tx 10 20)) = 25 + 25 \<and>
   payer (transaction (Block_new ''96'' demo_tx 10 20)) = ''alice'' \<and>
   payee (transaction (Block_new ''96'' demo_tx 10 20)) = ''bob'' \<and>
   ts (Block_new ''96'' demo_tx 10 20) = 10 \<and>
   nonce (Block_new ''96'' demo_tx 10 20) = 20 \<and>
   hash demo_crypto (Block_new ''96'' demo_tx 10 20) =
   hash demo_crypto \<lparr>prevHash = ''9'' @ ''6'',
      transaction = \<lparr>amount = 25 + 25, payer = ''alice'', payee = ''bob''\<rparr>, ts = 10, nonce = 20\<rparr>"
  using hash_deterministic [where p = "Block_new ''96'' demo_tx 10 20"
      and q = "\<lparr>prevHash = ''9'' @ ''6'',
      transaction = \<lparr>amount = 25 + 25, payer = ''alice'', payee = ''bob''\<rparr>, ts = 10, nonce = 20\<rparr>"
      and cr = demo_crypto]
  by (simp add: Block_new_def demo_tx_def Transaction_new_def)

text \<open>
  \<^bold>\<open>C7.\<close> The constructor of \<^verbatim>\<open>Chain\<close> makes a chain of exactly one block, whose
  \<open>prevHash\<close> is the empty string and whose transaction has amount 500, payer
  \<^verbatim>\<open>initial\<close> and the fixed payee \<^verbatim>\<open>Daniel\<close>; the singleton instance of a fresh
  process is such a chain.
\<close>

theorem Chain_new_genesis:
  "length (chain_blocks (Chain_new now rnd)) = 1 \<and>
   prevHash (chain_blocks (Chain_new now rnd) ! 0) = '''' \<and>
   amount (transaction (chain_blocks (Chain_new now rnd) ! 0)) = 500 \<and>
   payer (transaction (chain_blocks (Chain_new now rnd) ! 0)) = ''initial'' \<and>
   payee (transaction (chain_blocks (Chain_new now rnd) ! 0)) = ''Daniel'' \<and>
   Chain_instance (World_new now rnd) = Chain_new now rnd"
  by (simp add: Chain_new_def Block_new_def Transaction_new_def World_new_def)

text \<open>
  \<^bold>\<open>C8.\<close> \<^verbatim>\<open>sendMoney\<close> builds the transaction from the amount, the wallet's public
  key and the payee, signs its string form with the wallet's private key and hands it to
  \<^verbatim>\<open>addBlock\<close> with the wallet's public key. When the signature so produced verifies
  under the wallet's public key, the call returns, the chain is longer by one, and the new
  last block's transaction has the given amount, the wallet's public key as payer and the
  given payee.
\<close>

theorem sendMoney_appends:
  assumes "reachable cr (World_new gnow grnd) w"
    and "SHA256_sign cr (Transaction_toString (Transaction_new amt (publicKey this) payeePublicKey))
           (privateKey this) = Inr signature"
    and "SHA256_verify cr (Transaction_toString (Transaction_new amt (publicKey this) payeePublicKey))
           (publicKey this) signature = Inr True"
  shows "sendMoney cr now rnd this amt payeePublicKey w =
       addBlock cr now rnd (Transaction_new amt (publicKey this) payeePublicKey)
         (publicKey this) signature w \<and>
     (\<exists>w'. sendMoney cr now rnd this amt payeePublicKey w = Inr w' \<and>
        length (chain_blocks (Chain_instance w')) =
          length (chain_blocks (Chain_instance w)) + 1 \<and>
        amount (transaction (last (chain_blocks (Chain_instance w')))) = amt \<and>
        payer (transaction (last (chain_blocks (Chain_instance w')))) = publicKey this \<and>
        payee (transaction (last (chain_blocks (Chain_instance w')))) = payeePublicKey)"
proof -
  have eq: "sendMoney cr now rnd this amt payeePublicKey w =
       addBlock cr now rnd (Transaction_new amt (publicKey this) payeePublicKey)
         (publicKey this) signature w"
    using assms(2) by (simp add: sendMoney_def Let_def)
  from reachable_invariant [OF assms(1)] have "chain_blocks (Chain_instance w) \<noteq> []" by simp
  from addBlock_when_valid [OF assms(3) this] eq show ?thesis
    by (simp add: Block_new_def Transaction_new_def)
qed

text \<open>The theorem at a concrete input.\<close>

theorem sendMoney_appends_witness:
  "reachable demo_crypto (World_new 0 0) (World_new 0 0) \<and>
   SHA256_sign demo_crypto (Transaction_toString (Transaction_new 50 ''alice'' ''bob''))
     (privateKey demo_wallet) = Inr (demo_sig ''alice'' demo_tx) \<and>
   SHA256_verify demo_crypto (Transaction_toString (Transaction_new 50 ''alice'' ''bob''))
     (publicKey demo_wallet) (demo_sig ''alice'' demo_tx) = Inr True \<and>
   sendMoney demo_crypto 10 20 demo_wallet 50 ''bob'' (World_new 0 0) = Inr demo_world1"
proof -
  have pk: "publicKey demo_wallet = ''alice''" "privateKey demo_wallet = ''alice''"
    by (simp_all add: demo_wallet_def)
  have tx: "Transaction_new 50 ''alice'' ''bob'' = demo_tx" by (simp add: demo_tx_def)
  have s: "SHA256_sign demo_crypto
      (Transaction_toString (Transaction_new 50 (publicKey demo_wallet) ''bob''))
      (privateKey demo_wallet) = Inr (demo_sig ''alice'' demo_tx)"
    by (simp add: pk tx demo_sign)
  have v: "SHA256_verify demo_crypto
      (Transaction_toString (Transaction_new 50 (publicKey demo_wallet) ''bob''))
      (publicKey demo_wallet) (demo_sig ''alice'' demo_tx) = Inr True"
    by (simp add: pk tx demo_verify_ok)
  from sendMoney_appends [OF reachable.start s v, where gnow = 0 and grnd = 0 and now = 10 and rnd = 20]
  have "sendMoney demo_crypto 10 20 demo_wallet 50 ''bob'' (World_new 0 0) =
      addBlock demo_crypto 10 20 demo_tx ''alice'' (demo_sig ''alice'' demo_tx) (World_new 0 0)"
    by (simp add: pk tx)
  with s v reachable.start [of demo_crypto "World_new 0 0"] show ?thesis
    by (simp add: pk tx demo_step)
qed

text \<open>
  \<^bold>\<open>C9.\<close> \<^verbatim>\<open>lastBlock\<close> is \<^verbatim>\<open>undefined\<close> exactly on an empty chain. In every
  state reached from construction the index \<open>length - 1\<close> it reads is inside the array, and
  it yields the last block of the chain.
\<close>

theorem lastBlock_in_bounds:
  assumes "reachable cr (World_new gnow grnd) w"
  shows "(\<forall>c. (lastBlock c = None) = (chain_blocks c = [])) \<and>
     0 \<le> int (length (chain_blocks (Chain_instance w))) - 1 \<and>
     int (length (chain_blocks (Chain_instance w))) - 1 <
       int (length (chain_blocks (Chain_instance w))) \<and>
     lastBlock (Chain_instance w) = Some (last (chain_blocks (Chain_instance w)))"
proof -
  from reachable_invariant [OF assms] have ne: "chain_blocks (Chain_instance w) \<noteq> []" by simp
  then have "0 < length (chain_blocks (Chain_instance w))" by simp
  with lastBlock_nonempty [OF ne] lastBlock_None_iff show ?thesis by simp
qed

text \<open>The theorem at a concrete input.\<close>

theorem lastBlock_in_bounds_witness:
  "reachable demo_crypto (World_new 0 0) demo_world1 \<and>
   lastBlock (Chain_instance demo_world1) = Some (Block_new ''96'' demo_tx 10 20)"
  using lastBlock_in_bounds [OF demo_reachable] demo_reachable
  by (simp add: demo_world1_def)

text \<open>
  \<^bold>\<open>C10.\<close> \<^verbatim>\<open>addBlock\<close> decides on the verifier's answer alone. For every
  transaction, key and signature for which the verifier answers \<^verbatim>\<open>true\<close>, the block
  with that transaction is appended; nothing is asked of the payer field or of the amount,
  so this includes transactions whose payer is not the key and whose amount is zero or
  negative.
\<close>

theorem addBlock_gates_on_signature_only:
  assumes "reachable cr (World_new gnow grnd) w"
    and "SHA256_verify cr (Transaction_toString t) senderPublicKey signature = Inr True"
  shows "addBlock cr now rnd t senderPublicKey signature w =
     Inr (w\<lparr>Chain_instance := \<lparr>chain_blocks = chain_blocks (Chain_instance w) @
        [Block_new (hash cr (last (chain_blocks (Chain_instance w)))) t now rnd]\<rparr>\<rparr>)"
proof -
  from reachable_invariant [OF assms(1)] have "chain_blocks (Chain_instance w) \<noteq> []" by simp
  with assms(2) show ?thesis by (rule addBlock_when_valid)
qed

text \<open>The theorem at a concrete input.\<close>

theorem addBlock_gates_on_signature_only_witness:
  "reachable demo_crypto (World_new 0 0) (World_new 0 0) \<and>
   SHA256_verify demo_crypto (Transaction_toString (Transaction_new (- 5) ''bob'' ''carol''))
     ''alice'' (demo_sig ''alice'' (Transaction_new (- 5) ''bob'' ''carol'')) = Inr True \<and>
   payer (Transaction_new (- 5) ''bob'' ''carol'') \<noteq> ''alice'' \<and>
   amount (Transaction_new (- 5) ''bob'' ''carol'') < 0 \<and>
   addBlock demo_crypto 10 20 (Transaction_new (- 5) ''bob'' ''carol'') ''alice''
     (demo_sig ''alice'' (Transaction_new (- 5) ''bob'' ''carol'')) (World_new 0 0) =
     Inr \<lparr>Chain_instance = \<lparr>chain_blocks =
        [Block_new '''' (Transaction_new 500 ''initial'' ''Daniel'') 0 0,
         Block_new ''96'' (Transaction_new (- 5) ''bob'' ''carol'') 10 20]\<rparr>,
      console = []\<rparr>"
proof -
  have f: "payer (Transaction_new (- 5) ''bob'' ''carol'') \<noteq> ''alice''"
    "amount (Transaction_new (- 5) ''bob'' ''carol'') < 0"
    by (simp_all add: Transaction_new_def)
  show ?thesis
    using addBlock_gates_on_signature_only [OF reachable.start demo_verify_ok,
      where gnow = 0 and grnd = 0 and t = "Transaction_new (- 5) ''bob'' ''carol''"
        and now = 10 and rnd = 20]
    reachable.start [of demo_crypto "World_new 0 0"]
    demo_verify_ok [of "Transaction_new (- 5) ''bob'' ''carol''"]
      f
    by (simp add: World_new_def Chain_new_def demo_hash_genesis)
qed

end
